theory Spec2Isabelle
  imports Main "HOL-Library.Sublist" "HOL-Library.Multiset"
begin

section \<open>Strings and JSON values of the host\<close>

text \<open>
  A JavaScript string is modelled as a \<^typ>\<open>string\<close>: one \<^typ>\<open>char\<close> per code unit,
  which is exact for ASCII text. The only non-ASCII character of the source's literals,
  the horizontal ellipsis U+2026, is kept as its three UTF-8 bytes.
\<close>

definition ellipsis :: string where
  "ellipsis = [CHR 0xE2, CHR 0x80, CHR 0xA6]"

definition newline :: string where
  "newline = [CHR 0x0A]"

text \<open>\<open>String.prototype.toLowerCase\<close> on ASCII: the letters A to Z move to a to z.\<close>

definition lower_char :: "char \<Rightarrow> char" where
  "lower_char c =
     (let n = (of_char c :: nat) in if 65 \<le> n \<and> n \<le> 90 then char_of (n + 32) else c)"

definition toLowerCase :: "string \<Rightarrow> string" where
  "toLowerCase s = map lower_char s"

text \<open>\<open>String.prototype.includes\<close>: the argument occurs as a contiguous run.\<close>

fun str_includes :: "string \<Rightarrow> string \<Rightarrow> bool" where
  "str_includes [] sub = (sub = [])"
| "str_includes (c # cs) sub = (prefix sub (c # cs) \<or> str_includes cs sub)"

text \<open>
  \<open>String.prototype.trim\<close> on ASCII: tab, line feed, vertical tab, form feed, carriage
  return and space are removed from both ends.
\<close>

definition is_space :: "char \<Rightarrow> bool" where
  "is_space c = (let n = (of_char c :: nat) in (9 \<le> n \<and> n \<le> 13) \<or> n = 32)"

definition trim :: "string \<Rightarrow> string" where
  "trim s = rev (dropWhile is_space (rev (dropWhile is_space s)))"

text \<open>\<open>Array.prototype.join\<close> on an array of strings.\<close>

fun join :: "string \<Rightarrow> string list \<Rightarrow> string" where
  "join sep [] = []"
| "join sep [x] = x"
| "join sep (x # y # ys) = x @ sep @ join sep (y # ys)"

text \<open>
  The values \<open>JSON.parse\<close> and \<open>response.json()\<close> produce. Numbers are never used
  arithmetically by the code below (only their truthiness is), so integers stand for them.
  An object is the list of its own properties, in insertion order, with distinct keys.
\<close>

datatype json =
    JNull
  | JBool bool
  | JNum int
  | JStr string
  | JArr "json list"
  | JObj "(string \<times> json) list"

text \<open>
  Reading a property \<open>v.k\<close> or \<open>v?.k\<close> for one of the keys the code reads (\<open>text\<close>,
  \<open>children\<close>, \<open>tools\<close>, \<open>service_lookup\<close>, \<open>nextActions\<close>, \<open>needsIdentified\<close>): only
  an object can own it; on every other value the result is \<open>undefined\<close> (\<open>None\<close>).
\<close>

fun get_prop :: "json \<Rightarrow> string \<Rightarrow> json option" where
  "get_prop (JObj kvs) k = map_of kvs k"
| "get_prop _ k = None"

text \<open>JavaScript truthiness of a JSON value.\<close>

fun truthy :: "json \<Rightarrow> bool" where
  "truthy JNull = False"
| "truthy (JBool b) = b"
| "truthy (JNum n) = (n \<noteq> 0)"
| "truthy (JStr s) = (s \<noteq> [])"
| "truthy (JArr _) = True"
| "truthy (JObj _) = True"

section \<open>Loading-placeholder text\<close>

definition defaultMessages :: "string list" where
  "defaultMessages =
     [''Analyzing your request'' @ ellipsis,
      ''Looking up available resources'' @ ellipsis,
      ''Checking what help is available'' @ ellipsis,
      ''Finding services that match your needs'' @ ellipsis]"

definition getLoadingMessage :: "string \<Rightarrow> string" where
  "getLoadingMessage userMessage =
     (let messageLower = toLowerCase userMessage in
      if str_includes messageLower ''housing'' \<or>
         str_includes messageLower ''shelter'' \<or>
         str_includes messageLower ''homeless'' \<or>
         str_includes messageLower ''apartment'' \<or>
         str_includes messageLower ''place to stay''
      then ''Searching for housing options near you'' @ ellipsis
      else if str_includes messageLower ''food'' \<or>
         str_includes messageLower ''meal'' \<or>
         str_includes messageLower ''hungry'' \<or>
         str_includes messageLower ''eat'' \<or>
         str_includes messageLower ''food bank''
      then ''Finding food resources in your area'' @ ellipsis
      else if str_includes messageLower ''medical'' \<or>
         str_includes messageLower ''doctor'' \<or>
         str_includes messageLower ''health'' \<or>
         str_includes messageLower ''clinic'' \<or>
         str_includes messageLower ''hospital'' \<or>
         str_includes messageLower ''sick''
      then ''Looking up healthcare services for you'' @ ellipsis
      else if str_includes messageLower ''job'' \<or>
         str_includes messageLower ''work'' \<or>
         str_includes messageLower ''employment'' \<or>
         str_includes messageLower ''hire'' \<or>
         str_includes messageLower ''career''
      then ''Searching for employment resources'' @ ellipsis
      else if str_includes messageLower ''legal'' \<or>
         str_includes messageLower ''lawyer'' \<or>
         str_includes messageLower ''court'' \<or>
         str_includes messageLower ''rights''
      then ''Finding legal assistance options'' @ ellipsis
      else if str_includes messageLower ''mental'' \<or>
         str_includes messageLower ''counseling'' \<or>
         str_includes messageLower ''therapy'' \<or>
         str_includes messageLower ''depression'' \<or>
         str_includes messageLower ''anxiety''
      then ''Locating mental health support services'' @ ellipsis
      else if str_includes messageLower ''transport'' \<or>
         str_includes messageLower ''bus'' \<or>
         str_includes messageLower ''ride'' \<or>
         str_includes messageLower ''get there''
      then ''Checking transportation options'' @ ellipsis
      else if str_includes messageLower ''help'' \<or>
         str_includes messageLower ''support'' \<or>
         str_includes messageLower ''need'' \<or>
         str_includes messageLower ''assist''
      then ''Finding the best support options for you'' @ ellipsis
      else if str_includes messageLower ''near me'' \<or>
         str_includes messageLower ''nearby'' \<or>
         str_includes messageLower ''close'' \<or>
         str_includes messageLower ''around here''
      then ''Searching for nearby services'' @ ellipsis
      else defaultMessages ! (length userMessage mod length defaultMessages))"



section \<open>Message-content extraction\<close>

text \<open>
  The callback mapped over the parts of an array-shaped content. \<open>is_object\<close> is the test
  \<open>typeof part === "object" && part !== null\<close>, which arrays pass too.
\<close>

definition child_text :: "json \<Rightarrow> string" where
  "child_text child = (case get_prop child ''text'' of Some (JStr t) \<Rightarrow> t | _ \<Rightarrow> [])"

definition is_object :: "json \<Rightarrow> bool" where
  "is_object v = (case v of JObj kvs \<Rightarrow> True | JArr xs \<Rightarrow> True | _ \<Rightarrow> False)"

definition part_text :: "json \<Rightarrow> string" where
  "part_text part =
     (if \<not> is_object part then []
      else (case get_prop part ''text'' of
              Some (JStr maybeText) \<Rightarrow> maybeText
            | _ \<Rightarrow>
              (case get_prop part ''children'' of
                 Some (JArr children) \<Rightarrow> join [] (map child_text children)
               | _ \<Rightarrow> [])))"

definition extractText :: "json \<Rightarrow> string" where
  "extractText content =
     (if \<not> truthy content then []
      else case content of
        JStr s \<Rightarrow> s
      | JArr parts \<Rightarrow> join newline (map part_text parts)
      | _ \<Rightarrow> [])"

text \<open>
  The shapes of a part that the extraction reads: a string \<open>text\<close> property, or an array
  \<open>children\<close> property.
\<close>

definition has_text :: "json \<Rightarrow> bool" where
  "has_text p = (case get_prop p ''text'' of Some (JStr t) \<Rightarrow> True | _ \<Rightarrow> False)"

definition has_children :: "json \<Rightarrow> bool" where
  "has_children p = (case get_prop p ''children'' of Some (JArr cs) \<Rightarrow> True | _ \<Rightarrow> False)"

text \<open>
  The three shapes the specification names: a plain string, a sequence of
  \<open>{type: "text", text}\<close> parts, or a sequence of parts with nested \<open>children\<close>.
\<close>

definition is_text_part :: "json \<Rightarrow> bool" where
  "is_text_part p = (get_prop p ''type'' = Some (JStr ''text'') \<and> has_text p)"

definition spec_shape :: "json \<Rightarrow> bool" where
  "spec_shape c =
     (case c of
        JStr s \<Rightarrow> True
      | JArr ps \<Rightarrow> list_all is_text_part ps \<or> list_all has_children ps
      | _ \<Rightarrow> False)"

section \<open>Data model\<close>

datatype role = User | Assistant | System

datatype variant = Default | Callout

text \<open>
  Optional properties are options; \<open>None\<close> is an absent (or \<open>undefined\<close>) property.
  The annotation payloads (\<open>metadata\<close>, \<open>serviceGroups\<close>, \<open>nextActions\<close>,
  \<open>needsIdentified\<close>) are kept as the JSON values the agent sent. Field names carry a
  prefix where two of the source's types share a property name.
\<close>

record ChatMessage =
  cm_id :: string
  cm_role :: role
  cm_content :: string
  cm_metadata :: "json option"
  cm_variant :: "variant option"
  cm_serviceGroups :: "json option"
  cm_nextActions :: "json option"
  cm_needsIdentified :: "json option"

record AgentUGIMessage =
  am_id :: string
  am_role :: role
  am_content :: "(string \<times> string) list"

record AgentUGIResponseMessage =
  rm_role :: string
  rm_content :: "json option"
  rm_metadata :: "json option"

record RunAgentResponsePayload =
  newMessages :: "AgentUGIResponseMessage list option"
  payload_sessionId :: "string option"

record StoredMessage =
  sm_id :: string
  sm_role :: role
  sm_content :: string
  sm_metadata :: "json option"
  sm_serviceGroups :: "json option"
  sm_nextActions :: "json option"
  sm_needsIdentified :: "json option"
  sm_createdAt :: string

record StoredSession =
  sessionId :: string
  title :: string
  messages :: "StoredMessage list"
  createdAt :: string
  updatedAt :: string

record SessionHistoryBuckets =
  today :: "StoredSession list"
  yesterday :: "StoredSession list"
  last7Days :: "StoredSession list"
  monthly :: "(string \<times> StoredSession list) list"

section \<open>The host: dates, JSON text, session storage\<close>

datatype exn = SyntaxError | SecurityError | QuotaExceededError | TypeError | HttpError nat

text \<open>
  What a valid \<open>Date\<close> object answers to \<open>getFullYear\<close>, \<open>getMonth\<close>, \<open>getDate\<close> (local
  calendar) and \<open>getTime\<close>. A \<open>Date\<close> is such a value or \<open>Invalid Date\<close> (\<open>None\<close>),
  whose getters all answer \<open>NaN\<close>.
\<close>

record DateFields =
  getFullYear :: int
  getMonth :: int
  getDate :: int
  getTime :: int

type_synonym Date = "DateFields option"

text \<open>
  The built-ins of the JavaScript host that the code calls and whose result depends on the
  engine, the time zone or the text format are parameters of the model:
  \<open>new Date(string)\<close>, \<open>Date.prototype.setDate\<close>, \<open>JSON.stringify\<close> and \<open>JSON.parse\<close>
  (which throws \<open>SyntaxError\<close> on malformed text).
\<close>

record host =
  new_Date :: "string \<Rightarrow> Date"
  setDate :: "DateFields \<Rightarrow> int \<Rightarrow> Date"
  JSON_stringify :: "json \<Rightarrow> string"
  JSON_parse :: "string \<Rightarrow> exn + json"

text \<open>
  The browser as the storage functions see it: whether \<open>window\<close> exists, whether reading
  \<open>window.sessionStorage\<close> throws, the quota (\<open>setItem\<close> throws when the value is longer),
  the value under the key \<open>streetbot:sessions\<close>, and what \<open>console.warn\<close> and \<open>console.error\<close> have printed.
\<close>

record browser =
  window_defined :: bool
  storage_blocked :: bool
  quota :: "nat option"
  slot :: "string option"
  console :: "string list"

definition getItem :: "'a browser_scheme \<Rightarrow> exn + string option" where
  "getItem b = (if storage_blocked b then Inl SecurityError else Inr (slot b))"

definition removeItem :: "'a browser_scheme \<Rightarrow> exn + 'a browser_scheme" where
  "removeItem b = (if storage_blocked b then Inl SecurityError else Inr (b\<lparr>slot := None\<rparr>))"

definition setItem :: "string \<Rightarrow> 'a browser_scheme \<Rightarrow> exn + 'a browser_scheme" where
  "setItem v b =
     (if storage_blocked b then Inl SecurityError
      else case quota b of
        None \<Rightarrow> Inr (b\<lparr>slot := Some v\<rparr>)
      | Some q \<Rightarrow> if length v > q then Inl QuotaExceededError else Inr (b\<lparr>slot := Some v\<rparr>))"

definition console_warn :: "string \<Rightarrow> 'a browser_scheme \<Rightarrow> 'a browser_scheme" where
  "console_warn msg b = b\<lparr>console := console b @ [msg]\<rparr>"

text \<open>
  \<open>Array.prototype.sort\<close> with a comparator: a stable sort (ECMAScript 2019), written as
  insertion sort. An element stays in front of the first element it does not compare
  greater than. A comparator result of \<open>NaN\<close> counts as \<open>0\<close>.
\<close>

fun insert_by :: "('a \<Rightarrow> 'a \<Rightarrow> int) \<Rightarrow> 'a \<Rightarrow> 'a list \<Rightarrow> 'a list" where
  "insert_by cmp x [] = [x]"
| "insert_by cmp x (y # ys) = (if cmp x y \<le> 0 then x # y # ys else y # insert_by cmp x ys)"

definition array_sort :: "('a \<Rightarrow> 'a \<Rightarrow> int) \<Rightarrow> 'a list \<Rightarrow> 'a list" where
  "array_sort cmp xs = foldr (insert_by cmp) xs []"

text \<open>\<open>Array.prototype.findIndex\<close>; \<open>None\<close> is the result \<open>-1\<close>.\<close>

fun findIndex :: "('a \<Rightarrow> bool) \<Rightarrow> 'a list \<Rightarrow> nat option" where
  "findIndex P [] = None"
| "findIndex P (x # xs) = (if P x then Some 0 else map_option Suc (findIndex P xs))"

text \<open>Decimal text of a number, as \<open>String(n)\<close> and template literals print an integer.\<close>

fun show_nat :: "nat \<Rightarrow> string" where
  "show_nat n =
     (if n < 10 then [char_of (48 + n)] else show_nat (n div 10) @ [char_of (48 + n mod 10)])"

definition show_int :: "int \<Rightarrow> string" where
  "show_int i = (if i < 0 then CHR ''-'' # show_nat (nat (- i)) else show_nat (nat i))"

definition padStart2 :: "string \<Rightarrow> string" where
  "padStart2 s = replicate (2 - length s) CHR ''0'' @ s"

section \<open>Session Store\<close>

definition role_json :: "role \<Rightarrow> json" where
  "role_json r = JStr (case r of User \<Rightarrow> ''user'' | Assistant \<Rightarrow> ''assistant'' | System \<Rightarrow> ''system'')"

definition opt_prop :: "string \<Rightarrow> json option \<Rightarrow> (string \<times> json) list" where
  "opt_prop k v = (case v of None \<Rightarrow> [] | Some j \<Rightarrow> [(k, j)])"

text \<open>
  The object a \<open>StoredMessage\<close> or \<open>StoredSession\<close> is, as \<open>JSON.stringify\<close> sees it: own
  properties in declaration order, \<open>undefined\<close> ones left out.
\<close>

definition message_json :: "StoredMessage \<Rightarrow> json" where
  "message_json m =
     JObj ([(''id'', JStr (sm_id m)), (''role'', role_json (sm_role m)),
            (''content'', JStr (sm_content m))]
           @ opt_prop ''metadata'' (sm_metadata m)
           @ opt_prop ''serviceGroups'' (sm_serviceGroups m)
           @ opt_prop ''nextActions'' (sm_nextActions m)
           @ opt_prop ''needsIdentified'' (sm_needsIdentified m)
           @ [(''createdAt'', JStr (sm_createdAt m))])"

definition session_json :: "StoredSession \<Rightarrow> json" where
  "session_json s =
     JObj [(''sessionId'', JStr (sessionId s)), (''title'', JStr (title s)),
           (''messages'', JArr (map message_json (messages s))),
           (''createdAt'', JStr (createdAt s)), (''updatedAt'', JStr (updatedAt s))]"

text \<open>
  \<open>readStoredSessions\<close>. The body of the \<open>try\<close> block is \<open>read_body\<close>, whose \<open>Inl\<close> results
  are the exceptions thrown inside it; the \<open>catch\<close> clause warns and answers the empty array.
  The result is the parsed array as it is: the cast to \<open>StoredSession[]\<close> checks nothing.
\<close>

definition read_body :: "host \<Rightarrow> 'a browser_scheme \<Rightarrow> exn + json list" where
  "read_body H b =
     (case getItem b of
        Inl e \<Rightarrow> Inl e
      | Inr None \<Rightarrow> Inr []
      | Inr (Some raw) \<Rightarrow>
          (if raw = [] then Inr []
           else (case JSON_parse H raw of
                   Inl e \<Rightarrow> Inl e
                 | Inr (JArr xs) \<Rightarrow> Inr xs
                 | Inr _ \<Rightarrow> Inr [])))"

definition readStoredSessions ::
  "host \<Rightarrow> 'a browser_scheme \<Rightarrow> (exn + json list) \<times> 'a browser_scheme" where
  "readStoredSessions H b =
     (if \<not> window_defined b then (Inr [], b)
      else case read_body H b of
        Inr xs \<Rightarrow> (Inr xs, b)
      | Inl e \<Rightarrow> (Inr [], console_warn ''Failed to read Street Bot sessions'' b))"

text \<open>\<open>writeStoredSessions\<close>, with the \<open>try\<close> block as \<open>write_body\<close>.\<close>

definition write_body :: "host \<Rightarrow> StoredSession list \<Rightarrow> 'a browser_scheme \<Rightarrow> exn + 'a browser_scheme" where
  "write_body H next b =
     (if length next = 0 then removeItem b
      else setItem (JSON_stringify H (JArr (map session_json next))) b)"

definition writeStoredSessions :: "host \<Rightarrow> StoredSession list \<Rightarrow> 'a browser_scheme \<Rightarrow> 'a browser_scheme" where
  "writeStoredSessions H next b =
     (if \<not> window_defined b then b
      else case write_body H next b of
        Inr b' \<Rightarrow> b'
      | Inl e \<Rightarrow> console_warn ''Failed to persist Street Bot sessions'' b)"

definition upsertSession :: "StoredSession list \<Rightarrow> StoredSession \<Rightarrow> StoredSession list" where
  "upsertSession sessions session =
     (case findIndex (\<lambda>item. sessionId item = sessionId session) sessions of
        None \<Rightarrow> sessions @ [session]
      | Some index \<Rightarrow> sessions[index := session])"

text \<open>
  The comparator \<open>(a, b) => new Date(b.updatedAt).getTime() - new Date(a.updatedAt).getTime()\<close>;
  with an invalid date the difference is \<open>NaN\<close>, which the sort reads as \<open>0\<close>.
\<close>

definition byUpdated :: "host \<Rightarrow> StoredSession \<Rightarrow> StoredSession \<Rightarrow> int" where
  "byUpdated H a b =
     (case (new_Date H (updatedAt b), new_Date H (updatedAt a)) of
        (Some db, Some da) \<Rightarrow> getTime db - getTime da
      | _ \<Rightarrow> 0)"

definition sortSessionsByUpdated :: "host \<Rightarrow> StoredSession list \<Rightarrow> StoredSession list" where
  "sortSessionsByUpdated H sessions = array_sort (byUpdated H) sessions"

section \<open>Session Bucketer\<close>

definition formatDateKey :: "Date \<Rightarrow> string" where
  "formatDateKey date =
     (case date of
        None \<Rightarrow> ''NaN-NaN''
      | Some d \<Rightarrow> show_int (getFullYear d) @ ''-'' @ padStart2 (show_int (getMonth d + 1)))"

definition isSameDay :: "Date \<Rightarrow> Date \<Rightarrow> bool" where
  "isSameDay a b =
     (case (a, b) of
        (Some x, Some y) \<Rightarrow>
          getFullYear x = getFullYear y \<and> getMonth x = getMonth y \<and> getDate x = getDate y
      | _ \<Rightarrow> False)"

text \<open>\<open>a >= b\<close> on dates compares the time values; with \<open>NaN\<close> on a side it is false.\<close>

definition date_ge :: "Date \<Rightarrow> Date \<Rightarrow> bool" where
  "date_ge a b = (case (a, b) of (Some x, Some y) \<Rightarrow> getTime x \<ge> getTime y | _ \<Rightarrow> False)"

text \<open>
  \<open>buckets.monthly[monthKey]\<close> is created empty when missing, then the session is pushed;
  the object keeps its keys in insertion order.
\<close>

definition push_monthly ::
  "string \<Rightarrow> StoredSession \<Rightarrow> (string \<times> StoredSession list) list \<Rightarrow> (string \<times> StoredSession list) list" where
  "push_monthly monthKey session m =
     (case map_of m monthKey of
        None \<Rightarrow> m @ [(monthKey, [session])]
      | Some _ \<Rightarrow> map (\<lambda>(k, v). if k = monthKey then (k, v @ [session]) else (k, v)) m)"

text \<open>The body of the \<open>forEach\<close> callback; each \<open>return\<close> ends the handling of one session.\<close>

definition bucket_step ::
  "host \<Rightarrow> Date \<Rightarrow> Date \<Rightarrow> Date \<Rightarrow> StoredSession \<Rightarrow> SessionHistoryBuckets \<Rightarrow> SessionHistoryBuckets" where
  "bucket_step H now yest sevenDaysAgo session buckets =
     (let updated = new_Date H (updatedAt session) in
      if isSameDay updated now then buckets\<lparr>today := today buckets @ [session]\<rparr>
      else if isSameDay updated yest then buckets\<lparr>yesterday := yesterday buckets @ [session]\<rparr>
      else if date_ge updated sevenDaysAgo then buckets\<lparr>last7Days := last7Days buckets @ [session]\<rparr>
      else buckets\<lparr>monthly := push_monthly (formatDateKey updated) session (monthly buckets)\<rparr>)"

text \<open>\<open>bucketSessions\<close>; the ambient clock \<open>new Date()\<close> is the argument \<open>now\<close>.\<close>

definition bucketSessions :: "host \<Rightarrow> DateFields \<Rightarrow> StoredSession list \<Rightarrow> SessionHistoryBuckets" where
  "bucketSessions H now sessions =
     (let yest = setDate H now (getDate now - 1);
          sevenDaysAgo = setDate H now (getDate now - 7)
      in fold (bucket_step H (Some now) yest sevenDaysAgo) sessions
           \<lparr>today = [], yesterday = [], last7Days = [], monthly = []\<rparr>)"

section \<open>Chat Controller\<close>

text \<open>
  The component's state (the \<open>useState\<close> cells of \<open>Home\<close> that the submit handler touches),
  on top of the browser, together with the requests sent with \<open>fetch\<close>.
\<close>

record request =
  req_url :: string
  req_messages :: "AgentUGIMessage list"
  req_sessionId :: "string option"

record world = browser +
  ui_messages :: "ChatMessage list"
  ui_sessionId :: "string option"
  ui_storedSessions :: "StoredSession list"
  ui_input :: string
  requests :: "request list"

text \<open>
  What the awaited \<open>fetch\<close> brings back: a rejection, or a response with a status and a
  body. The body is not JSON (\<open>response.json()\<close> rejects), or JSON that is not of the
  declared payload type so that reading \<open>newMessages\<close> throws (its \<open>sessionId\<close>, already
  read, is kept), or a payload of type \<open>RunAgentResponsePayload\<close>.
\<close>

datatype body = NotJson | IllTyped "string option" | WellTyped RunAgentResponsePayload

datatype reply = FetchRejected | Response nat body

definition toAgentMessages :: "ChatMessage list \<Rightarrow> AgentUGIMessage list" where
  "toAgentMessages history =
     map (\<lambda>message. \<lparr>am_id = cm_id message, am_role = cm_role message,
                      am_content = [(''text'', cm_content message)]\<rparr>) history"

definition getDefaultSessionTitle :: "string \<Rightarrow> string" where
  "getDefaultSessionTitle message =
     (let trimmed = trim message in
      if trimmed = [] then ''Untitled chat''
      else if length trimmed \<le> 48 then trimmed else take 45 trimmed @ ellipsis)"

text \<open>A string or \<open>null\<close> used as a condition: true for a non-empty string.\<close>

definition truthy_str :: "string option \<Rightarrow> bool" where
  "truthy_str v = (case v of None \<Rightarrow> False | Some s \<Rightarrow> s \<noteq> [])"

text \<open>\<open>a ?? b\<close> on a JSON value that may be \<open>undefined\<close>.\<close>

definition nullish_or :: "json option \<Rightarrow> json \<Rightarrow> json" where
  "nullish_or v d = (case v of None \<Rightarrow> d | Some JNull \<Rightarrow> d | Some j \<Rightarrow> j)"

definition opt_chain :: "json option \<Rightarrow> string \<Rightarrow> json option" where
  "opt_chain v k = (case v of None \<Rightarrow> None | Some j \<Rightarrow> get_prop j k)"

text \<open>The values the handler's closure keeps from the render in which it was created.\<close>

record closure =
  userMessage :: ChatMessage
  nextMessages :: "ChatMessage list"
  loadingMessageId :: string
  closure_messages :: "ChatMessage list"
  closure_sessionId :: "string option"

definition user_message :: "string \<Rightarrow> string \<Rightarrow> ChatMessage" where
  "user_message uuid content =
     \<lparr>cm_id = uuid, cm_role = User, cm_content = content, cm_metadata = None,
      cm_variant = None, cm_serviceGroups = None, cm_nextActions = None,
      cm_needsIdentified = None\<rparr>"

definition stored_user_message :: "ChatMessage \<Rightarrow> string \<Rightarrow> StoredMessage" where
  "stored_user_message um at =
     \<lparr>sm_id = cm_id um, sm_role = User, sm_content = cm_content um, sm_metadata = None,
      sm_serviceGroups = None, sm_nextActions = None, sm_needsIdentified = None,
      sm_createdAt = at\<rparr>"

definition callout :: "string \<Rightarrow> role \<Rightarrow> string \<Rightarrow> ChatMessage" where
  "callout i r c =
     \<lparr>cm_id = i, cm_role = r, cm_content = c, cm_metadata = None,
      cm_variant = Some Callout, cm_serviceGroups = None, cm_nextActions = None,
      cm_needsIdentified = None\<rparr>"

definition make_closure :: "string \<Rightarrow> world \<Rightarrow> closure" where
  "make_closure uuid w =
     (let um = user_message uuid (trim (ui_input w)) in
      \<lparr>userMessage = um, nextMessages = ui_messages w @ [um],
       loadingMessageId = cm_id um @ ''-loading'',
       closure_messages = ui_messages w, closure_sessionId = ui_sessionId w\<rparr>)"

text \<open>
  The updater of the first \<open>setStoredSessions\<close> call (the optimistic copy of the user
  message), applied to the store of the moment.
\<close>

definition persist_user_message :: "host \<Rightarrow> string \<Rightarrow> StoredMessage \<Rightarrow> world \<Rightarrow> world" where
  "persist_user_message H currentSessionId storedUserMessage w =
     (let prev = ui_storedSessions w in
      case find (\<lambda>session. sessionId session = currentSessionId) prev of
        None \<Rightarrow> w
      | Some existing \<Rightarrow>
          if list_ex (\<lambda>message. sm_id message = sm_id storedUserMessage) (messages existing)
          then w
          else
            (let updatedSession = existing\<lparr>messages := messages existing @ [storedUserMessage],
                                            updatedAt := sm_createdAt storedUserMessage\<rparr>;
                 nextSessions = sortSessionsByUpdated H
                   (map (\<lambda>session. if sessionId session = currentSessionId
                                    then updatedSession else session) prev)
             in (writeStoredSessions H nextSessions w)\<lparr>ui_storedSessions := nextSessions\<rparr>))"

text \<open>
  The synchronous part of \<open>handleSubmit\<close> after the guard: the user message and the loading
  placeholder are appended, the input is cleared, and the user message is copied into the
  current session of the store. \<open>uuid\<close> is the result of \<open>crypto.randomUUID()\<close> and
  \<open>at\<close> that of \<open>new Date().toISOString()\<close>.
\<close>

definition submit_sync :: "host \<Rightarrow> closure \<Rightarrow> string \<Rightarrow> world \<Rightarrow> world" where
  "submit_sync H c at w =
     (let um = userMessage c;
          storedUserMessage = stored_user_message um at;
          dynamicLoadingMessage = getLoadingMessage (cm_content um);
          w1 = w\<lparr>ui_messages := nextMessages c
                    @ [callout (loadingMessageId c) Assistant dynamicLoadingMessage],
                  ui_input := []\<rparr>
      in case closure_sessionId c of
           None \<Rightarrow> w1
         | Some currentSessionId \<Rightarrow>
             if currentSessionId = [] then w1
             else persist_user_message H currentSessionId storedUserMessage w1)"

text \<open>The callback that turns the \<open>index\<close>-th message of the response into a chat message.\<close>

definition assistant_message :: "string \<Rightarrow> nat \<Rightarrow> AgentUGIResponseMessage \<Rightarrow> ChatMessage" where
  "assistant_message uuid index message =
     (let metadata = rm_metadata message;
          rawServiceGroups = opt_chain (opt_chain metadata ''tools'') ''service_lookup'';
          serviceGroups = (case rawServiceGroups of Some (JArr gs) \<Rightarrow> gs | _ \<Rightarrow> []);
          r = (if rm_role message = ''user'' then User
               else if rm_role message = ''assistant'' then Assistant else Assistant)
      in \<lparr>cm_id = uuid @ ''-assistant-'' @ show_nat index,
          cm_role = r,
          cm_content = (case rm_content message of Some content \<Rightarrow> extractText content | None \<Rightarrow> []),
          cm_metadata = metadata,
          cm_variant = (if length serviceGroups > 0 then Some Callout else None),
          cm_serviceGroups = Some (JArr serviceGroups),
          cm_nextActions = Some (nullish_or (opt_chain metadata ''nextActions'') (JArr [])),
          cm_needsIdentified = Some (nullish_or (opt_chain metadata ''needsIdentified'') (JArr []))\<rparr>)"

definition stored_assistant_message :: "string \<Rightarrow> ChatMessage \<Rightarrow> StoredMessage" where
  "stored_assistant_message now assistantMessage =
     \<lparr>sm_id = cm_id assistantMessage, sm_role = cm_role assistantMessage,
      sm_content = cm_content assistantMessage, sm_metadata = cm_metadata assistantMessage,
      sm_serviceGroups = cm_serviceGroups assistantMessage,
      sm_nextActions = cm_nextActions assistantMessage,
      sm_needsIdentified = cm_needsIdentified assistantMessage, sm_createdAt = now\<rparr>"

text \<open>
  The updater of the second \<open>setStoredSessions\<close> call (the merge of a successful turn),
  applied to the store of the moment; \<open>now\<close> is \<open>new Date().toISOString()\<close> at that time.
\<close>

definition merge_turn ::
  "host \<Rightarrow> closure \<Rightarrow> string option \<Rightarrow> ChatMessage list \<Rightarrow> string \<Rightarrow> world \<Rightarrow> world" where
  "merge_turn H c maybeSessionId assistantMessages now w =
     (case maybeSessionId of
        None \<Rightarrow> w
      | Some sid \<Rightarrow>
          if sid = [] then w
          else
            (let prev = ui_storedSessions w;
                 existing = find (\<lambda>session. sessionId session = sid) prev;
                 storedUserMessage = stored_user_message (userMessage c) now;
                 nextSession =
                   \<lparr>sessionId = sid,
                    title = (case existing of
                               Some e \<Rightarrow> title e
                             | None \<Rightarrow> getDefaultSessionTitle
                                 (case find (\<lambda>msg. cm_role msg = User) (closure_messages c) of
                                    Some msg \<Rightarrow> cm_content msg
                                  | None \<Rightarrow> cm_content (userMessage c))),
                    messages = (case existing of Some e \<Rightarrow> messages e | None \<Rightarrow> [])
                               @ [storedUserMessage]
                               @ map (stored_assistant_message now) assistantMessages,
                    createdAt = (case existing of Some e \<Rightarrow> createdAt e | None \<Rightarrow> now),
                    updatedAt = now\<rparr>;
                 nextSessions = array_sort (byUpdated H) (upsertSession prev nextSession)
             in (writeStoredSessions H nextSessions w)\<lparr>ui_storedSessions := nextSessions\<rparr>))"

definition without_loading :: "closure \<Rightarrow> ChatMessage list \<Rightarrow> ChatMessage list" where
  "without_loading c prev = filter (\<lambda>message. cm_id message \<noteq> loadingMessageId c) prev"

text \<open>
  The \<open>try\<close> block of the transition, for an agent with address \<open>url\<close>. The result names
  the exception thrown, if any, and the state reached at that point.
\<close>

definition try_block :: "host \<Rightarrow> closure \<Rightarrow> string \<Rightarrow> reply \<Rightarrow> string \<Rightarrow> world \<Rightarrow> exn option \<times> world" where
  "try_block H c url r now w =
     (let w1 = w\<lparr>requests := requests w @
                  [\<lparr>req_url = url, req_messages = toAgentMessages (nextMessages c),
                    req_sessionId = (if truthy_str (closure_sessionId c)
                                     then closure_sessionId c else None)\<rparr>]\<rparr>
      in case r of
           FetchRejected \<Rightarrow> (Some TypeError, w1)
         | Response status b \<Rightarrow>
             if \<not> (200 \<le> status \<and> status \<le> 299) then (Some (HttpError status), w1)
             else (case b of
                     NotJson \<Rightarrow> (Some SyntaxError, w1)
                   | IllTyped maybeSessionId \<Rightarrow>
                       (Some TypeError,
                        if truthy_str maybeSessionId then w1\<lparr>ui_sessionId := maybeSessionId\<rparr> else w1)
                   | WellTyped payload \<Rightarrow>
                       (let maybeSessionId = payload_sessionId payload;
                            w2 = (if truthy_str maybeSessionId
                                  then w1\<lparr>ui_sessionId := maybeSessionId\<rparr> else w1);
                            msgs = (case newMessages payload of Some ms \<Rightarrow> ms | None \<Rightarrow> []);
                            assistantMessages =
                              map (\<lambda>(index, message). assistant_message (cm_id (userMessage c)) index message)
                                  (enumerate 0 msgs);
                            w3 = w2\<lparr>ui_messages :=
                                      (let withoutLoading = without_loading c (ui_messages w2) in
                                       if length assistantMessages = 0 then withoutLoading
                                       else withoutLoading @ assistantMessages)\<rparr>
                        in (None, merge_turn H c maybeSessionId assistantMessages now w3))))"

text \<open>
  The asynchronous part of \<open>handleSubmit\<close> (the callback given to \<open>startTransition\<close>), run
  on the state of the moment with the closure of the submitting render. \<open>agent\<close> is the
  configured agent's address or \<open>null\<close>.
\<close>

definition transition :: "host \<Rightarrow> closure \<Rightarrow> string option \<Rightarrow> reply \<Rightarrow> string \<Rightarrow> world \<Rightarrow> world" where
  "transition H c agent r now w =
     (case agent of
        None \<Rightarrow>
          w\<lparr>ui_messages := ui_messages w @
              [callout (cm_id (userMessage c) @ ''-missing-agent'') System
                 ''Street Bot isn't connected to an agent yet. Set NEXT_PUBLIC_AGENT_URL and reload to chat.'']\<rparr>
      | Some url \<Rightarrow>
          (case try_block H c url r now w of
             (None, w') \<Rightarrow> w'
           | (Some e, w') \<Rightarrow>
               (console_warn ''Street Bot request failed'' w')
                 \<lparr>ui_messages := without_loading c (ui_messages w') @
                    [callout (cm_id (userMessage c) @ ''-error'') System
                       ''We couldn't reach the Street Bot service. Check your agent URL or try again.'']\<rparr>))"

text \<open>
  \<open>handleSubmit\<close> for one turn that runs to its end with nothing in between: the guard on
  the trimmed input, the synchronous part at time \<open>at\<close>, then the transition, whose
  network reply \<open>r\<close> arrives at time \<open>now\<close>.
\<close>

definition handleSubmit ::
  "host \<Rightarrow> string \<Rightarrow> string \<Rightarrow> string option \<Rightarrow> reply \<Rightarrow> string \<Rightarrow> world \<Rightarrow> world" where
  "handleSubmit H uuid at agent r now w =
     (if trim (ui_input w) = [] then w
      else (let c = make_closure uuid w
            in transition H c agent r now (submit_sync H c at w)))"

section \<open>A concrete host\<close>

text \<open>
  One host to evaluate the model on: its local time zone is UTC, dates are read from the
  text \<open>toISOString\<close> prints (\<open>YYYY-MM-DDTHH:mm:ss.sssZ\<close>), and JSON text is compact (no
  white space), with integers for numbers.
\<close>

definition days_from_civil :: "int \<Rightarrow> int \<Rightarrow> int \<Rightarrow> int" where
  "days_from_civil y m d =
     (let y' = (if m \<le> 2 then y - 1 else y);
          era = y' div 400;
          yoe = y' - era * 400;
          mp = (m + 9) mod 12;
          doy = (153 * mp + 2) div 5 + d - 1;
          doe = yoe * 365 + yoe div 4 - yoe div 100 + doy
      in era * 146097 + doe - 719468)"

definition civil_from_days :: "int \<Rightarrow> int \<times> int \<times> int" where
  "civil_from_days days =
     (let z = days + 719468;
          era = z div 146097;
          doe = z - era * 146097;
          yoe = (doe - doe div 1460 + doe div 36524 - doe div 146096) div 365;
          doy = doe - (365 * yoe + yoe div 4 - yoe div 100);
          mp = (5 * doy + 2) div 153;
          d = doy - (153 * mp + 2) div 5 + 1;
          m = (if mp < 10 then mp + 3 else mp - 9)
      in ((if m \<le> 2 then yoe + era * 400 + 1 else yoe + era * 400), m, d))"

definition utc_date :: "int \<Rightarrow> Date" where
  "utc_date t =
     (case civil_from_days (t div 86400000) of
        (y, m, d) \<Rightarrow> Some \<lparr>getFullYear = y, getMonth = m - 1, getDate = d, getTime = t\<rparr>)"

definition utc_setDate :: "DateFields \<Rightarrow> int \<Rightarrow> Date" where
  "utc_setDate d k = utc_date (getTime d + (k - getDate d) * 86400000)"

definition is_digit :: "char \<Rightarrow> bool" where
  "is_digit c = (let n = (of_char c :: nat) in 48 \<le> n \<and> n \<le> 57)"

definition digits_value :: "string \<Rightarrow> int" where
  "digits_value s = foldl (\<lambda>acc c. acc * 10 + (int (of_char c) - 48)) 0 s"

definition number_at :: "string \<Rightarrow> nat \<Rightarrow> nat \<Rightarrow> int option" where
  "number_at s i n =
     (let ds = take n (drop i s)
      in if length ds = n \<and> list_all is_digit ds then Some (digits_value ds) else None)"

definition utc_new_Date :: "string \<Rightarrow> Date" where
  "utc_new_Date s =
     (if length s = 24 \<and> s ! 4 = CHR ''-'' \<and> s ! 7 = CHR ''-'' \<and> s ! 10 = CHR ''T'' \<and>
         s ! 13 = CHR '':'' \<and> s ! 16 = CHR '':'' \<and> s ! 19 = CHR ''.'' \<and> s ! 23 = CHR ''Z''
      then (case (number_at s 0 4, number_at s 5 2, number_at s 8 2, number_at s 11 2,
                  number_at s 14 2, number_at s 17 2, number_at s 20 3) of
              (Some y, Some m, Some d, Some hh, Some mm, Some ss, Some ms) \<Rightarrow>
                if 1 \<le> m \<and> m \<le> 12 \<and> 1 \<le> d \<and> d \<le> 31 \<and> hh < 24 \<and> mm < 60 \<and> ss < 60
                then utc_date (((days_from_civil y m d * 24 + hh) * 60 + mm) * 60000
                               + ss * 1000 + ms)
                else None
            | _ \<Rightarrow> None)
      else None)"

definition print_string :: "string \<Rightarrow> string" where
  "print_string s =
     CHR 0x22 # concat (map (\<lambda>c. if c = CHR 0x22 \<or> c = CHR 0x5C then [CHR 0x5C, c] else [c]) s)
       @ [CHR 0x22]"

fun print_json :: "json \<Rightarrow> string" where
  "print_json JNull = ''null''"
| "print_json (JBool b) = (if b then ''true'' else ''false'')"
| "print_json (JNum i) = show_int i"
| "print_json (JStr s) = print_string s"
| "print_json (JArr xs) = ''['' @ join '','' (map print_json xs) @ '']''"
| "print_json (JObj kvs) =
     ''{'' @ join '','' (map (\<lambda>kv. print_string (fst kv) @ '':'' @ print_json (snd kv)) kvs) @ ''}''"

text \<open>The parser reads a value and gives back the text left over; \<open>None\<close> is a syntax error.\<close>

fun parse_string :: "string \<Rightarrow> (string \<times> string) option" where
  "parse_string [] = None"
| "parse_string [c] = (if c = CHR 0x22 then Some ([], []) else None)"
| "parse_string (c # d # cs) =
     (if c = CHR 0x22 then Some ([], d # cs)
      else if c = CHR 0x5C then
        (if d = CHR 0x22 \<or> d = CHR 0x5C
         then map_option (\<lambda>(s, r). (d # s, r)) (parse_string cs) else None)
      else map_option (\<lambda>(s, r). (c # s, r)) (parse_string (d # cs)))"

definition parse_number :: "string \<Rightarrow> (json \<times> string) option" where
  "parse_number cs =
     (let neg = (cs \<noteq> [] \<and> hd cs = CHR ''-'');
          body = (if neg then tl cs else cs);
          ds = takeWhile is_digit body
      in if ds = [] then None
         else Some (JNum (if neg then - digits_value ds else digits_value ds),
                    dropWhile is_digit body))"

fun parse_value :: "nat \<Rightarrow> string \<Rightarrow> (json \<times> string) option"
and parse_elems :: "nat \<Rightarrow> string \<Rightarrow> (json list \<times> string) option"
and parse_members :: "nat \<Rightarrow> string \<Rightarrow> ((string \<times> json) list \<times> string) option" where
  "parse_value 0 cs = None"
| "parse_value (Suc n) cs =
     (if cs = [] then None
      else if hd cs = CHR 0x22 then map_option (\<lambda>(s, r). (JStr s, r)) (parse_string (tl cs))
      else if prefix ''[]'' cs then Some (JArr [], drop 2 cs)
      else if hd cs = CHR ''['' then map_option (\<lambda>(vs, r). (JArr vs, r)) (parse_elems n (tl cs))
      else if prefix ''{}'' cs then Some (JObj [], drop 2 cs)
      else if hd cs = CHR ''{'' then map_option (\<lambda>(kvs, r). (JObj kvs, r)) (parse_members n (tl cs))
      else if prefix ''null'' cs then Some (JNull, drop 4 cs)
      else if prefix ''true'' cs then Some (JBool True, drop 4 cs)
      else if prefix ''false'' cs then Some (JBool False, drop 5 cs)
      else parse_number cs)"
| "parse_elems 0 cs = None"
| "parse_elems (Suc n) cs =
     (case parse_value n cs of
        None \<Rightarrow> None
      | Some (v, r) \<Rightarrow>
          (if r = [] then None
           else if hd r = CHR '']'' then Some ([v], tl r)
           else if hd r = CHR '','' then map_option (\<lambda>(vs, r'). (v # vs, r')) (parse_elems n (tl r))
           else None))"
| "parse_members 0 cs = None"
| "parse_members (Suc n) cs =
     (if cs = [] \<or> hd cs \<noteq> CHR 0x22 then None
      else (case parse_string (tl cs) of
              None \<Rightarrow> None
            | Some (k, r0) \<Rightarrow>
                (if r0 = [] \<or> hd r0 \<noteq> CHR '':'' then None
                 else (case parse_value n (tl r0) of
                         None \<Rightarrow> None
                       | Some (v, r) \<Rightarrow>
                           (if r = [] then None
                            else if hd r = CHR ''}'' then Some ([(k, v)], tl r)
                            else if hd r = CHR '','' then
                              map_option (\<lambda>(kvs, r'). ((k, v) # kvs, r')) (parse_members n (tl r))
                            else None)))))"

definition parse_json :: "string \<Rightarrow> exn + json" where
  "parse_json s =
     (case parse_value (Suc (length s)) s of
        Some (v, []) \<Rightarrow> Inr v
      | _ \<Rightarrow> Inl SyntaxError)"

definition utc_host :: host where
  "utc_host = \<lparr>new_Date = utc_new_Date, setDate = utc_setDate,
               JSON_stringify = print_json, JSON_parse = parse_json\<rparr>"

section \<open>Notions used to state the properties\<close>

text \<open>
  The time value of a session's \<open>updatedAt\<close>, and whether it denotes a date at all. The
  order "by \<open>updatedAt\<close> descending" is the order of these time values.
\<close>

definition time_of :: "host \<Rightarrow> StoredSession \<Rightarrow> int" where
  "time_of H s = (case new_Date H (updatedAt s) of Some d \<Rightarrow> getTime d | None \<Rightarrow> 0)"

definition valid_updatedAt :: "host \<Rightarrow> StoredSession \<Rightarrow> bool" where
  "valid_updatedAt H s = (new_Date H (updatedAt s) \<noteq> None)"

text \<open>A session without messages, created and updated at the same instant.\<close>

definition session_at :: "string \<Rightarrow> string \<Rightarrow> string \<Rightarrow> StoredSession" where
  "session_at sid name at =
     \<lparr>sessionId = sid, title = name, messages = [], createdAt = at, updatedAt = at\<rparr>"

text \<open>
  The specification's bucket of a session relative to \<open>now\<close>: the first rule that matches,
  in the order today, yesterday, last seven days, month.
\<close>

datatype bucket = Today | Yesterday | Last7Days | Monthly string

definition spec_bucket :: "host \<Rightarrow> DateFields \<Rightarrow> StoredSession \<Rightarrow> bucket" where
  "spec_bucket H now s =
     (let u = new_Date H (updatedAt s) in
      if isSameDay u (Some now) then Today
      else if isSameDay u (setDate H now (getDate now - 1)) then Yesterday
      else if date_ge u (setDate H now (getDate now - 7)) then Last7Days
      else Monthly (formatDateKey u))"

definition all_buckets :: "SessionHistoryBuckets \<Rightarrow> StoredSession list" where
  "all_buckets b = today b @ yesterday b @ last7Days b @ concat (map snd (monthly b))"

abbreviation (input) the_step ::
  "host \<Rightarrow> DateFields \<Rightarrow> StoredSession \<Rightarrow> SessionHistoryBuckets \<Rightarrow> SessionHistoryBuckets" where
  "the_step H now \<equiv>
     bucket_step H (Some now) (setDate H now (getDate now - 1)) (setDate H now (getDate now - 7))"

text \<open>
  A JSON value with the properties of a Session of the data model: string \<open>sessionId\<close>,
  \<open>title\<close>, \<open>createdAt\<close> and \<open>updatedAt\<close>, and an array \<open>messages\<close>.
\<close>

definition has_string :: "json \<Rightarrow> string \<Rightarrow> bool" where
  "has_string j k = (case get_prop j k of Some (JStr s) \<Rightarrow> True | _ \<Rightarrow> False)"

definition is_session_json :: "json \<Rightarrow> bool" where
  "is_session_json j =
     (has_string j ''sessionId'' \<and> has_string j ''title'' \<and>
      (case get_prop j ''messages'' of Some (JArr ms) \<Rightarrow> True | _ \<Rightarrow> False) \<and>
      has_string j ''createdAt'' \<and> has_string j ''updatedAt'')"




text \<open>The three messages the handler makes up itself, by the id of the user message.\<close>

definition loading_message :: "string \<Rightarrow> string \<Rightarrow> ChatMessage" where
  "loading_message uuid content = callout (uuid @ ''-loading'') Assistant (getLoadingMessage content)"

definition missing_agent_message :: "string \<Rightarrow> ChatMessage" where
  "missing_agent_message uuid =
     callout (uuid @ ''-missing-agent'') System
       ''Street Bot isn't connected to an agent yet. Set NEXT_PUBLIC_AGENT_URL and reload to chat.''"


text \<open>The session the store holds for the current conversation, if any.\<close>

definition current_session :: "world \<Rightarrow> StoredSession option" where
  "current_session w =
     (case ui_sessionId w of
        None \<Rightarrow> None
      | Some sid \<Rightarrow> if sid = [] then None
                    else find (\<lambda>session. sessionId session = sid) (ui_storedSessions w))"

text \<open>
  Sample data. A conversation that continues the stored session \<open>s1\<close>, in a browser with
  working storage; the agent's answer to it; a reference instant (2024-03-10, noon) with
  sessions around the day and week boundaries.
\<close>

definition demo_world :: world where
  "demo_world =
     \<lparr>window_defined = True, storage_blocked = False, quota = None, slot = None, console = [],
      ui_messages = [], ui_sessionId = Some ''s1'',
      ui_storedSessions = [session_at ''s1'' ''Shelters'' ''2024-05-01T10:00:00.000Z''],
      ui_input = '' I need food '', requests = []\<rparr>"

definition demo_payload :: RunAgentResponsePayload where
  "demo_payload =
     \<lparr>newMessages = Some [\<lparr>rm_role = ''assistant'', rm_content = Some (JStr ''Try the food bank''),
                           rm_metadata = None\<rparr>],
      payload_sessionId = Some ''s1''\<rparr>"


definition demo_sessions :: "StoredSession list" where
  "demo_sessions =
     [\<lparr>sessionId = ''s1'', title = ''Shelters'',
       messages = [stored_user_message (user_message ''u0'' ''Where can I sleep?'')
                     ''2024-05-01T10:00:00.000Z''],
       createdAt = ''2024-05-01T10:00:00.000Z'', updatedAt = ''2024-05-01T10:00:00.000Z''\<rparr>,
      session_at ''s2'' ''Untitled chat'' ''2024-04-30T10:00:00.000Z'']"

definition demo_now :: DateFields where
  "demo_now = \<lparr>getFullYear = 2024, getMonth = 2, getDate = 10, getTime = 1710072000000\<rparr>"

definition demo_history :: "StoredSession list" where
  "demo_history =
     [session_at ''a'' ''midnight today'' ''2024-03-10T00:00:00.000Z'',
      session_at ''b'' ''end of yesterday'' ''2024-03-09T23:59:59.999Z'',
      session_at ''c'' ''seven days ago to the millisecond'' ''2024-03-03T12:00:00.000Z'',
      session_at ''d'' ''just older'' ''2024-03-03T11:59:59.999Z'',
      session_at ''e'' ''last month'' ''2024-02-29T08:00:00.000Z'',
      session_at ''f'' ''no date'' ''soon'',
      session_at ''g'' ''same instant as d'' ''2024-03-03T11:59:59.999Z'']"

section \<open>Properties of the loading-placeholder text\<close>






section \<open>Properties of the message-content extraction\<close>

lemma join_empty_sep: "join [] xs = concat xs"
  by (induction "[]::string" xs rule: join.induct) simp_all

lemma part_text_text: "part_text (JObj [(''type'', JStr ''text''), (''text'', JStr t)]) = t"
  by (simp add: part_text_def is_object_def)

lemma child_text_leaf: "child_text (JObj [(''text'', JStr t)]) = t"
  by (simp add: child_text_def)

lemma part_text_children:
  "part_text (JObj [(''children'', JArr (map (\<lambda>t. JObj [(''text'', JStr t)]) ts))]) = concat ts"
  by (simp add: part_text_def is_object_def join_empty_sep comp_def child_text_leaf)

lemma extractText_string: "extractText (JStr s) = s"
  by (simp add: extractText_def)

lemma extractText_array: "extractText (JArr ps) = join newline (map part_text ps)"
  by (simp add: extractText_def)

lemma extractText_other: "(\<forall>s. c \<noteq> JStr s) \<Longrightarrow> (\<forall>ps. c \<noteq> JArr ps) \<Longrightarrow> extractText c = []"
  by (cases c) (simp_all add: extractText_def)

lemma part_text_other: "\<not> has_text p \<Longrightarrow> \<not> has_children p \<Longrightarrow> part_text p = []"
  by (cases p)
     (auto simp: part_text_def is_object_def has_text_def has_children_def
           split: option.splits json.splits)

text \<open>
  C8, the claim as stated fails: the array \<open>[1, 2]\<close> is none of the three shapes, and its
  extraction is a line feed, not the empty string.
\<close>

theorem extractText_counterexample:
  "\<not> spec_shape (JArr [JNum 1, JNum 2]) \<and> extractText (JArr [JNum 1, JNum 2]) \<noteq> []"
  by (simp add: spec_shape_def is_text_part_def has_text_def has_children_def
        extractText_def part_text_def is_object_def newline_def)

text \<open>
  C8, amended. A plain string is returned as it is; a sequence of \<open>{type: "text", text}\<close>
  parts gives their texts joined by line feeds; a part with nested \<open>children\<close> leaf nodes
  gives their texts concatenated; a content that is neither a string nor an array gives the
  empty string. An array always gives its parts' texts joined by line feeds, where a part
  with neither a string \<open>text\<close> nor an array \<open>children\<close> counts as the empty string, so an
  array of other parts gives line feeds only. The extraction never fails.
\<close>

theorem extractText_shapes:
  "extractText (JStr s) = s \<and>
   extractText (JArr (map (\<lambda>t. JObj [(''type'', JStr ''text''), (''text'', JStr t)]) ts))
     = join newline ts \<and>
   extractText (JArr [JObj [(''children'', JArr (map (\<lambda>t. JObj [(''text'', JStr t)]) ts))]])
     = concat ts \<and>
   ((\<forall>s. c \<noteq> JStr s) \<and> (\<forall>ps. c \<noteq> JArr ps) \<longrightarrow> extractText c = []) \<and>
   extractText (JArr ps) = join newline (map part_text ps) \<and>
   (\<not> has_text p \<and> \<not> has_children p \<longrightarrow> part_text p = [])"
  by (simp add: extractText_string extractText_array extractText_other part_text_other
        part_text_children comp_def part_text_text)

theorem extractText_shapes_witness:
  "extractText (JObj [(''text'', JStr ''x'')]) = [] \<and>
   part_text (JNum 7) = [] \<and>
   extractText (JArr [JNum 7, JObj [(''text'', JStr ''ab'')], JBool True]) = newline @ ''ab'' @ newline"
  using extractText_shapes [of "[]" "[]" "JObj [(''text'', JStr ''x'')]"
      "[JNum 7, JObj [(''text'', JStr ''ab'')], JBool True]" "JNum 7"]
  by (simp add: has_text_def has_children_def part_text_def is_object_def)

section \<open>Properties of the submit guard\<close>




section \<open>Properties of upsert and sort\<close>

lemma findIndex_None: "findIndex P xs = None \<longleftrightarrow> (\<forall>x\<in>set xs. \<not> P x)"
  by (induction xs) auto

lemma findIndex_Some: "findIndex P xs = Some i \<Longrightarrow> i < length xs \<and> P (xs ! i)"
  by (induction xs arbitrary: i) (auto split: if_splits)

lemma upsert_ids:
  "map sessionId (upsertSession xs s) =
     (if sessionId s \<in> set (map sessionId xs) then map sessionId xs else map sessionId xs @ [sessionId s])"
proof (cases "findIndex (\<lambda>item. sessionId item = sessionId s) xs")
  case None
  then have "sessionId s \<notin> set (map sessionId xs)"
    by (auto simp: findIndex_None)
  with None show ?thesis by (simp add: upsertSession_def)
next
  case (Some i)
  from findIndex_Some [OF Some] have i: "i < length xs" "sessionId (xs ! i) = sessionId s" by auto
  then have "sessionId s \<in> set (map sessionId xs)"
    by (metis length_map nth_map nth_mem)
  moreover have "map sessionId (xs[i := s]) = map sessionId xs"
    using i by (simp add: map_update list_update_same_conv)
  ultimately show ?thesis using Some by (simp add: upsertSession_def)
qed

lemma upsert_distinct:
  "distinct (map sessionId xs) \<Longrightarrow> distinct (map sessionId (upsertSession xs s))"
  by (simp add: upsert_ids)

lemma upsert_set:
  assumes "distinct (map sessionId xs)"
  shows "set (upsertSession xs s) = {x \<in> set xs. sessionId x \<noteq> sessionId s} \<union> {s}"
proof (cases "findIndex (\<lambda>item. sessionId item = sessionId s) xs")
  case None
  then have no: "\<forall>x\<in>set xs. sessionId x \<noteq> sessionId s" by (simp add: findIndex_None)
  have "upsertSession xs s = xs @ [s]" using None by (simp add: upsertSession_def)
  with no show ?thesis by auto
next
  case (Some i)
  from findIndex_Some [OF Some] have i: "i < length xs" "sessionId (xs ! i) = sessionId s" by auto
  have uniq: "x = xs ! i" if "x \<in> set xs" "sessionId x = sessionId s" for x
  proof -
    from that obtain j where j: "j < length xs" "xs ! j = x" by (auto simp: in_set_conv_nth)
    with i that have "map sessionId xs ! j = map sessionId xs ! i" by simp
    with assms j i have "j = i" by (simp add: nth_eq_iff_index_eq del: nth_map)
    with j show ?thesis by simp
  qed
  have "set (xs[i := s]) = {x \<in> set xs. sessionId x \<noteq> sessionId s} \<union> {s}"
  proof (intro set_eqI iffI)
    fix x assume "x \<in> set (xs[i := s])"
    then obtain j where j: "j < length xs" "xs[i := s] ! j = x" by (auto simp: in_set_conv_nth)
    show "x \<in> {x \<in> set xs. sessionId x \<noteq> sessionId s} \<union> {s}"
    proof (cases "j = i")
      case True with j i show ?thesis by simp
    next
      case False
      with j have x: "x = xs ! j" by simp
      have "sessionId x \<noteq> sessionId s"
      proof
        assume "sessionId x = sessionId s"
        with uniq [of x] x j have "xs ! j = xs ! i" by simp
        moreover from assms have "distinct xs" by (simp add: distinct_map)
        ultimately have "j = i" using j i by (simp add: nth_eq_iff_index_eq)
        with False show False by simp
      qed
      with x j show ?thesis by simp
    qed
  next
    fix x assume "x \<in> {x \<in> set xs. sessionId x \<noteq> sessionId s} \<union> {s}"
    then consider "x = s" | "x \<in> set xs" "sessionId x \<noteq> sessionId s" by auto
    then show "x \<in> set (xs[i := s])"
    proof cases
      case 1 with i show ?thesis by (simp add: set_update_memI)
    next
      case 2
      then obtain j where j: "j < length xs" "xs ! j = x" by (auto simp: in_set_conv_nth)
      with 2 i have "j \<noteq> i" by auto
      with j have "xs[i := s] ! j = x" by simp
      with j show ?thesis by (metis length_list_update nth_mem)
    qed
  qed
  with Some show ?thesis by (simp add: upsertSession_def)
qed

lemma mset_insert_by: "mset (insert_by cmp x xs) = add_mset x (mset xs)"
  by (induction xs) auto

lemma mset_array_sort: "mset (array_sort cmp xs) = mset xs"
  by (induction xs) (auto simp: array_sort_def mset_insert_by)

lemma set_array_sort: "set (array_sort cmp xs) = set xs"
  by (metis mset_array_sort set_mset_mset)

lemma distinct_map_array_sort: "distinct (map f (array_sort cmp xs)) = distinct (map f xs)"
proof -
  have "mset (map f (array_sort cmp xs)) = mset (map f xs)"
    by (simp add: mset_array_sort)
  then show ?thesis by (rule mset_eq_imp_distinct_iff)
qed

lemma byUpdated_valid:
  "valid_updatedAt H a \<Longrightarrow> valid_updatedAt H b \<Longrightarrow> byUpdated H a b = time_of H b - time_of H a"
  by (auto simp: byUpdated_def valid_updatedAt_def time_of_def)

lemma insert_by_insort_key:
  "valid_updatedAt H x \<Longrightarrow> \<forall>y\<in>set ys. valid_updatedAt H y \<Longrightarrow>
   insert_by (byUpdated H) x ys = insort_key (\<lambda>s. - time_of H s) x ys"
  by (induction ys) (auto simp: byUpdated_valid)

lemma array_sort_sort_key:
  "\<forall>y\<in>set xs. valid_updatedAt H y \<Longrightarrow>
   array_sort (byUpdated H) xs = sort_key (\<lambda>s. - time_of H s) xs"
proof (induction xs)
  case Nil then show ?case by (simp add: array_sort_def)
next
  case (Cons x xs)
  then have "array_sort (byUpdated H) xs = sort_key (\<lambda>s. - time_of H s) xs" by simp
  moreover have "\<forall>y\<in>set (array_sort (byUpdated H) xs). valid_updatedAt H y"
    using Cons.prems by (simp add: set_array_sort)
  ultimately show ?case
    using Cons.prems insert_by_insort_key [of H x "array_sort (byUpdated H) xs"]
    by (simp add: array_sort_def)
qed

lemma sorted_desc:
  assumes "\<forall>y\<in>set xs. valid_updatedAt H y"
  shows "sorted_wrt (\<lambda>a b. time_of H a \<ge> time_of H b) (sortSessionsByUpdated H xs)"
proof -
  have "sorted (map (\<lambda>s. - time_of H s) (sort_key (\<lambda>s. - time_of H s) xs))"
    by (rule sorted_sort_key)
  then have "sorted_wrt (\<lambda>a b. - time_of H a \<le> - time_of H b) (sort_key (\<lambda>s. - time_of H s) xs)"
    by (simp add: sorted_map)
  then show ?thesis
    using assms by (simp add: sortSessionsByUpdated_def array_sort_sort_key)
qed

lemma stable_desc:
  assumes "\<forall>y\<in>set xs. valid_updatedAt H y"
  shows "filter (\<lambda>s. time_of H s = t) (sortSessionsByUpdated H xs) = filter (\<lambda>s. time_of H s = t) xs"
proof -
  have "filter (\<lambda>s. - time_of H s = - t) (sort_key (\<lambda>s. - time_of H s) xs)
        = filter (\<lambda>s. - time_of H s = - t) xs"
    by (rule sort_key_stable)
  then show ?thesis
    using assms by (simp add: sortSessionsByUpdated_def array_sort_sort_key)
qed

text \<open>
  C3, the claim as stated fails: with two stored sessions of the same id, the upsert of a
  third session of that id replaces only the first, and two entries of the id remain.
\<close>

theorem upsert_sort_counterexample:
  "\<not> distinct (map sessionId (sortSessionsByUpdated utc_host
        (upsertSession
           [session_at ''x'' ''first'' ''2024-05-01T10:00:00.000Z'',
            session_at ''x'' ''second'' ''2024-05-02T10:00:00.000Z'']
           (session_at ''x'' ''third'' ''2024-05-03T10:00:00.000Z''))))"
  by code_simp

text \<open>
  C3, amended. For every sequence of sessions with pairwise distinct ids and every session,
  \<open>upsert\<close> followed by \<open>sortByRecency\<close> has exactly one entry per id: the given
  session and the input's sessions of other ids. When every \<open>updatedAt\<close> denotes a date,
  the result is ordered by \<open>updatedAt\<close> descending, and sessions of equal time keep the
  order they have after the upsert.
\<close>

theorem upsert_sort_unique_sorted:
  assumes "distinct (map sessionId sessions)"
  shows "distinct (map sessionId (sortSessionsByUpdated H (upsertSession sessions session))) \<and>
         set (sortSessionsByUpdated H (upsertSession sessions session))
           = {x \<in> set sessions. sessionId x \<noteq> sessionId session} \<union> {session} \<and>
         ((\<forall>y\<in>set (session # sessions). valid_updatedAt H y) \<longrightarrow>
            sorted_wrt (\<lambda>a b. time_of H a \<ge> time_of H b)
              (sortSessionsByUpdated H (upsertSession sessions session)) \<and>
            (\<forall>t. filter (\<lambda>s. time_of H s = t) (sortSessionsByUpdated H (upsertSession sessions session))
                 = filter (\<lambda>s. time_of H s = t) (upsertSession sessions session)))"
proof (intro conjI impI allI)
  show "distinct (map sessionId (sortSessionsByUpdated H (upsertSession sessions session)))"
    using assms by (simp add: sortSessionsByUpdated_def distinct_map_array_sort upsert_distinct)
  show "set (sortSessionsByUpdated H (upsertSession sessions session))
           = {x \<in> set sessions. sessionId x \<noteq> sessionId session} \<union> {session}"
    using assms by (simp add: sortSessionsByUpdated_def set_array_sort upsert_set)
next
  assume v: "\<forall>y\<in>set (session # sessions). valid_updatedAt H y"
  have "set (upsertSession sessions session) \<subseteq> set (session # sessions)"
    using assms by (auto simp: upsert_set)
  with v have v': "\<forall>y\<in>set (upsertSession sessions session). valid_updatedAt H y" by blast
  then show "sorted_wrt (\<lambda>a b. time_of H a \<ge> time_of H b)
              (sortSessionsByUpdated H (upsertSession sessions session))"
    by (rule sorted_desc)
  show "filter (\<lambda>s. time_of H s = t) (sortSessionsByUpdated H (upsertSession sessions session))
                 = filter (\<lambda>s. time_of H s = t) (upsertSession sessions session)" for t
    using v' by (rule stable_desc)
qed

theorem upsert_sort_unique_sorted_witness:
  "distinct (map sessionId demo_sessions) \<and>
   list_all (valid_updatedAt utc_host)
     (session_at ''s2'' ''Food'' ''2024-05-01T10:00:00.000Z'' # demo_sessions) \<and>
   distinct (map sessionId (sortSessionsByUpdated utc_host
     (upsertSession demo_sessions (session_at ''s2'' ''Food'' ''2024-05-01T10:00:00.000Z'')))) \<and>
   sorted_wrt (\<lambda>a b. time_of utc_host a \<ge> time_of utc_host b)
     (sortSessionsByUpdated utc_host
       (upsertSession demo_sessions (session_at ''s2'' ''Food'' ''2024-05-01T10:00:00.000Z''))) \<and>
   filter (\<lambda>s. time_of utc_host s = 1714557600000)
     (sortSessionsByUpdated utc_host
       (upsertSession demo_sessions (session_at ''s2'' ''Food'' ''2024-05-01T10:00:00.000Z'')))
     = filter (\<lambda>s. time_of utc_host s = 1714557600000)
         (upsertSession demo_sessions (session_at ''s2'' ''Food'' ''2024-05-01T10:00:00.000Z''))"
proof -
  have d: "distinct (map sessionId demo_sessions)"
    by (simp add: demo_sessions_def session_at_def)
  have l: "list_all (valid_updatedAt utc_host)
     (session_at ''s2'' ''Food'' ''2024-05-01T10:00:00.000Z'' # demo_sessions)"
    by code_simp
  then have v: "\<forall>y\<in>set (session_at ''s2'' ''Food'' ''2024-05-01T10:00:00.000Z'' # demo_sessions).
      valid_updatedAt utc_host y"
    by (simp only: list_all_iff)
  from upsert_sort_unique_sorted [OF d, of utc_host "session_at ''s2'' ''Food'' ''2024-05-01T10:00:00.000Z''"]
    v l d show ?thesis by blast
qed

section \<open>Properties of the bucketing\<close>

lemma bucket_step_class:
  "bucket_step H (Some now) (setDate H now (getDate now - 1)) (setDate H now (getDate now - 7)) s b =
     (case spec_bucket H now s of
        Today \<Rightarrow> b\<lparr>today := today b @ [s]\<rparr>
      | Yesterday \<Rightarrow> b\<lparr>yesterday := yesterday b @ [s]\<rparr>
      | Last7Days \<Rightarrow> b\<lparr>last7Days := last7Days b @ [s]\<rparr>
      | Monthly k \<Rightarrow> b\<lparr>monthly := push_monthly k s (monthly b)\<rparr>)"
  by (simp add: bucket_step_def spec_bucket_def Let_def)

lemma map_fst_push_existing:
  "map fst (map (\<lambda>(k', v). if k' = k then (k', v @ [s]) else (k', v)) m) = map fst m"
  by (induction m) auto

lemma map_of_Some_key: "map_of m k = Some zs \<Longrightarrow> k \<in> set (map fst m)"
  by (induction m) (auto split: if_splits)

lemma map_fst_push_monthly:
  "map fst (push_monthly k s m) = (if k \<in> set (map fst m) then map fst m else map fst m @ [k])"
proof (cases "map_of m k")
  case None
  then have eq: "push_monthly k s m = m @ [(k, [s])]" by (simp add: push_monthly_def)
  from None have "k \<notin> set (map fst m)" by (simp add: map_of_eq_None_iff)
  with eq show ?thesis by simp
next
  case (Some zs)
  then have eq: "push_monthly k s m = map (\<lambda>(k', v). if k' = k then (k', v @ [s]) else (k', v)) m"
    by (simp add: push_monthly_def)
  from Some have "k \<in> set (map fst m)" by (rule map_of_Some_key)
  then show ?thesis unfolding eq map_fst_push_existing by simp
qed

lemma distinct_push_monthly:
  "distinct (map fst m) \<Longrightarrow> distinct (map fst (push_monthly k s m))"
  by (simp add: map_fst_push_monthly)

lemma map_of_push_existing:
  "map_of (map (\<lambda>(k', v). if k' = k then (k', v @ [s]) else (k', v)) m) k' =
     (if k' = k then map_option (\<lambda>v. v @ [s]) (map_of m k) else map_of m k')"
  by (induction m) auto

lemma map_of_push_monthly:
  "map_of (push_monthly k s m) k' =
     (if k' = k then Some ((case map_of m k of None \<Rightarrow> [] | Some zs \<Rightarrow> zs) @ [s]) else map_of m k')"
proof (cases "map_of m k")
  case None
  then show ?thesis by (auto simp: push_monthly_def map_add_def split: option.splits)
next
  case (Some zs)
  then show ?thesis by (simp add: push_monthly_def map_of_push_existing)
qed

lemma mset_push_existing:
  "distinct (map fst m) \<Longrightarrow> k \<in> set (map fst m) \<Longrightarrow>
   mset (concat (map snd (map (\<lambda>(k', v). if k' = k then (k', v @ [s]) else (k', v)) m)))
     = add_mset s (mset (concat (map snd m)))"
proof (induction m)
  case Nil then show ?case by simp
next
  case (Cons kv m)
  obtain k0 v0 where kv: "kv = (k0, v0)" by (cases kv)
  show ?case
  proof (cases "k0 = k")
    case True
    with Cons.prems kv have "k \<notin> set (map fst m)" by simp
    then have "map (\<lambda>(k', v). if k' = k then (k', v @ [s]) else (k', v)) m = m"
      by (induction m) auto
    with True kv show ?thesis by simp
  next
    case False
    with Cons kv show ?thesis by simp
  qed
qed

lemma mset_push_monthly:
  assumes "distinct (map fst m)"
  shows "mset (concat (map snd (push_monthly k s m))) = add_mset s (mset (concat (map snd m)))"
proof (cases "map_of m k")
  case None
  then show ?thesis by (simp add: push_monthly_def)
next
  case (Some zs)
  then have eq: "push_monthly k s m = map (\<lambda>(k', v). if k' = k then (k', v @ [s]) else (k', v)) m"
    by (simp add: push_monthly_def)
  from Some have "k \<in> set (map fst m)" by (rule map_of_Some_key)
  with assms show ?thesis unfolding eq by (rule mset_push_existing)
qed

lemma fold_today:
  "today (fold (the_step H now) xs b) = today b @ filter (\<lambda>s. spec_bucket H now s = Today) xs"
  by (induction xs arbitrary: b) (auto simp: bucket_step_class split: bucket.splits)

lemma fold_yesterday:
  "yesterday (fold (the_step H now) xs b) = yesterday b @ filter (\<lambda>s. spec_bucket H now s = Yesterday) xs"
  by (induction xs arbitrary: b) (auto simp: bucket_step_class split: bucket.splits)

lemma fold_last7Days:
  "last7Days (fold (the_step H now) xs b) = last7Days b @ filter (\<lambda>s. spec_bucket H now s = Last7Days) xs"
  by (induction xs arbitrary: b) (auto simp: bucket_step_class split: bucket.splits)

lemma fold_distinct:
  "distinct (map fst (monthly b)) \<Longrightarrow> distinct (map fst (monthly (fold (the_step H now) xs b)))"
  by (induction xs arbitrary: b) (auto simp: bucket_step_class distinct_push_monthly split: bucket.splits)

lemma fold_mset:
  "distinct (map fst (monthly b)) \<Longrightarrow>
   mset (all_buckets (fold (the_step H now) xs b)) = mset (all_buckets b) + mset xs"
proof (induction xs arbitrary: b)
  case Nil then show ?case by simp
next
  case (Cons s xs)
  let ?b = "the_step H now s b"
  have d: "distinct (map fst (monthly ?b))"
    using Cons.prems by (auto simp: bucket_step_class distinct_push_monthly split: bucket.splits)
  have "mset (all_buckets ?b) = add_mset s (mset (all_buckets b))"
    using Cons.prems
    by (auto simp: bucket_step_class all_buckets_def mset_push_monthly split: bucket.splits)
  with Cons.IH [OF d] show ?case by simp
qed

lemma step_monthly:
  "map_of (monthly (the_step H now s b)) k =
     (if spec_bucket H now s = Monthly k
      then Some ((case map_of (monthly b) k of None \<Rightarrow> [] | Some zs \<Rightarrow> zs) @ [s])
      else map_of (monthly b) k)"
  by (cases "spec_bucket H now s") (auto simp: bucket_step_class map_of_push_monthly)

lemma fold_monthly:
  "map_of (monthly (fold (the_step H now) xs b)) k =
     (let new = filter (\<lambda>s. spec_bucket H now s = Monthly k) xs in
      case map_of (monthly b) k of
        None \<Rightarrow> if new = [] then None else Some new
      | Some zs \<Rightarrow> Some (zs @ new))"
proof (induction xs arbitrary: b)
  case Nil then show ?case by (simp split: option.splits)
next
  case (Cons s xs)
  have eq: "map_of (monthly (fold (the_step H now) (s # xs) b)) k =
     (let new = filter (\<lambda>s. spec_bucket H now s = Monthly k) xs in
      case map_of (monthly (the_step H now s b)) k of
        None \<Rightarrow> if new = [] then None else Some new
      | Some zs \<Rightarrow> Some (zs @ new))"
    using Cons.IH [of "the_step H now s b"] by (simp only: fold_simps)
  show ?case unfolding eq step_monthly
    by (simp add: Let_def split: option.splits)
qed

text \<open>
  C4. Bucketing is a partition. Relative to any reference instant, each bucket holds, in
  input order, exactly the sessions whose first matching rule (same calendar day as now;
  the calendar day before; not older than now minus seven days; otherwise the month
  \<open>YYYY-MM\<close> of \<open>updatedAt\<close>) is that bucket; the month keys are distinct and no month
  group is empty; and the buckets together hold every input session exactly once.
\<close>

theorem bucketSessions_partition:
  "today (bucketSessions H now sessions) = filter (\<lambda>s. spec_bucket H now s = Today) sessions \<and>
   yesterday (bucketSessions H now sessions) = filter (\<lambda>s. spec_bucket H now s = Yesterday) sessions \<and>
   last7Days (bucketSessions H now sessions) = filter (\<lambda>s. spec_bucket H now s = Last7Days) sessions \<and>
   distinct (map fst (monthly (bucketSessions H now sessions))) \<and>
   (\<forall>k. map_of (monthly (bucketSessions H now sessions)) k =
          (if filter (\<lambda>s. spec_bucket H now s = Monthly k) sessions = [] then None
           else Some (filter (\<lambda>s. spec_bucket H now s = Monthly k) sessions))) \<and>
   mset (all_buckets (bucketSessions H now sessions)) = mset sessions"
proof -
  let ?b0 = "\<lparr>today = [], yesterday = [], last7Days = [], monthly = []\<rparr>"
  have b: "bucketSessions H now sessions = fold (the_step H now) sessions ?b0"
    by (simp add: bucketSessions_def Let_def)
  have d0: "distinct (map fst (monthly ?b0))" by simp
  show ?thesis
    unfolding b
    using fold_distinct [OF d0, of H now sessions] fold_mset [OF d0, of H now sessions]
    by (simp add: fold_today fold_yesterday fold_last7Days fold_monthly all_buckets_def Let_def)
qed

theorem bucketSessions_partition_witness:
  "map (spec_bucket utc_host demo_now) demo_history
     = [Today, Yesterday, Last7Days, Monthly ''2024-03'', Monthly ''2024-02'',
        Monthly ''NaN-NaN'', Monthly ''2024-03''] \<and>
   today (bucketSessions utc_host demo_now demo_history)
     = filter (\<lambda>s. spec_bucket utc_host demo_now s = Today) demo_history \<and>
   distinct (map fst (monthly (bucketSessions utc_host demo_now demo_history))) \<and>
   mset (all_buckets (bucketSessions utc_host demo_now demo_history)) = mset demo_history"
proof -
  have "map (spec_bucket utc_host demo_now) demo_history
     = [Today, Yesterday, Last7Days, Monthly ''2024-03'', Monthly ''2024-02'',
        Monthly ''NaN-NaN'', Monthly ''2024-03'']"
    by code_simp
  with bucketSessions_partition [of utc_host demo_now demo_history] show ?thesis
    by blast
qed

section \<open>Properties of the Session Store\<close>






lemma read_never_raises: "\<exists>xs. fst (readStoredSessions H b) = Inr xs"
  by (simp add: readStoredSessions_def split: sum.splits)

lemma read_console_only:
  "snd (readStoredSessions H b) = b \<or>
   snd (readStoredSessions H b) = console_warn ''Failed to read Street Bot sessions'' b"
  by (simp add: readStoredSessions_def split: sum.splits)

lemma read_no_window: "\<not> window_defined b \<Longrightarrow> fst (readStoredSessions H b) = Inr []"
  by (simp add: readStoredSessions_def)

lemma read_blocked: "storage_blocked b \<Longrightarrow> fst (readStoredSessions H b) = Inr []"
  by (simp add: readStoredSessions_def read_body_def getItem_def)

lemma read_absent: "slot b = None \<Longrightarrow> fst (readStoredSessions H b) = Inr []"
  by (simp add: readStoredSessions_def read_body_def getItem_def)

lemma read_not_array:
  "slot b = Some raw \<Longrightarrow> \<forall>xs. JSON_parse H raw \<noteq> Inr (JArr xs) \<Longrightarrow>
   fst (readStoredSessions H b) = Inr []"
  by (auto simp: readStoredSessions_def read_body_def getItem_def split: sum.splits json.splits)

lemma read_array:
  "window_defined b \<Longrightarrow> \<not> storage_blocked b \<Longrightarrow> slot b = Some raw \<Longrightarrow> raw \<noteq> [] \<Longrightarrow>
   JSON_parse H raw = Inr (JArr xs) \<Longrightarrow> readStoredSessions H b = (Inr xs, b)"
  by (simp add: readStoredSessions_def read_body_def getItem_def)





text \<open>
  C7, the claim as stated fails: a slot holding \<open>[1]\<close> is not a sequence of Sessions, and
  the load gives the one-element array \<open>[1]\<close>, not the empty sequence.
\<close>

theorem readStoredSessions_counterexample:
  "\<not> list_all is_session_json [JNum 1] \<and>
   fst (readStoredSessions utc_host
          \<lparr>window_defined = True, storage_blocked = False, quota = None,
           slot = Some ''[1]'', console = []\<rparr>) = Inr [JNum 1]"
  by code_simp

text \<open>
  C7, amended. The load never raises, and the only thing it can change is the console, by
  one warning. It gives the empty sequence when \<open>window\<close> is missing, when the storage
  cannot be reached, when the slot is absent or empty, and when the slot's text is not
  valid JSON or is JSON other than an array. When the text is a JSON array, the load gives
  that array as it is, whatever its elements.
\<close>

theorem readStoredSessions_never_raises:
  "(\<exists>xs. fst (readStoredSessions H b) = Inr xs) \<and>
   (snd (readStoredSessions H b) = b \<or>
    snd (readStoredSessions H b) = console_warn ''Failed to read Street Bot sessions'' b) \<and>
   (\<not> window_defined b \<or> storage_blocked b \<or> slot b = None \<or> slot b = Some [] \<or>
    (slot b = Some raw \<and> (\<forall>xs. JSON_parse H raw \<noteq> Inr (JArr xs)))
      \<longrightarrow> fst (readStoredSessions H b) = Inr []) \<and>
   (window_defined b \<and> \<not> storage_blocked b \<and> slot b = Some raw \<and> raw \<noteq> [] \<and>
    JSON_parse H raw = Inr (JArr xs)
      \<longrightarrow> readStoredSessions H b = (Inr xs, b))"
proof (intro conjI impI)
  show "\<exists>xs. fst (readStoredSessions H b) = Inr xs"
    by (rule read_never_raises)
  show "snd (readStoredSessions H b) = b \<or>
    snd (readStoredSessions H b) = console_warn ''Failed to read Street Bot sessions'' b"
    by (rule read_console_only)
  show "readStoredSessions H b = (Inr xs, b)"
    if "window_defined b \<and> \<not> storage_blocked b \<and> slot b = Some raw \<and> raw \<noteq> [] \<and>
        JSON_parse H raw = Inr (JArr xs)"
    using that by (simp add: read_array)
next
  assume "\<not> window_defined b \<or> storage_blocked b \<or> slot b = None \<or> slot b = Some [] \<or>
    (slot b = Some raw \<and> (\<forall>xs. JSON_parse H raw \<noteq> Inr (JArr xs)))"
  then show "fst (readStoredSessions H b) = Inr []"
  proof (elim disjE conjE)
    assume "slot b = Some []"
    then show ?thesis by (simp add: readStoredSessions_def read_body_def getItem_def)
  qed (simp_all add: read_no_window read_blocked read_absent read_not_array)
qed

theorem readStoredSessions_never_raises_witness:
  "(\<forall>xs. parse_json ''{\"sessions\":[]'' \<noteq> Inr (JArr xs)) \<and>
   readStoredSessions utc_host
      \<lparr>window_defined = True, storage_blocked = False, quota = None,
       slot = Some ''{\"sessions\":[]'', console = []\<rparr>
     = (Inr [], \<lparr>window_defined = True, storage_blocked = False, quota = None,
                slot = Some ''{\"sessions\":[]'',
                console = [''Failed to read Street Bot sessions'']\<rparr>)"
proof -
  let ?b = "\<lparr>window_defined = True, storage_blocked = False, quota = None,
       slot = Some ''{\"sessions\":[]'', console = []\<rparr>"
  have p: "parse_json ''{\"sessions\":[]'' = Inl SyntaxError" by code_simp
  then have na: "\<forall>xs. JSON_parse utc_host ''{\"sessions\":[]'' \<noteq> Inr (JArr xs)"
    by (simp add: utc_host_def)
  have "fst (readStoredSessions utc_host ?b) = Inr []"
    using readStoredSessions_never_raises [of utc_host ?b "''{\"sessions\":[]''"] na by simp
  moreover have "snd (readStoredSessions utc_host ?b) = console_warn ''Failed to read Street Bot sessions'' ?b"
    using p by (simp add: readStoredSessions_def read_body_def getItem_def utc_host_def)
  ultimately show ?thesis using p by (simp add: console_warn_def prod_eq_iff)
qed

section \<open>Properties of the submit handler\<close>

lemma write_ui [simp]:
  "ui_messages (writeStoredSessions H n w) = ui_messages w"
  "ui_sessionId (writeStoredSessions H n w) = ui_sessionId w"
  "ui_storedSessions (writeStoredSessions H n w) = ui_storedSessions w"
  "ui_input (writeStoredSessions H n w) = ui_input w"
  "requests (writeStoredSessions H n w) = requests w"
  by (auto simp: writeStoredSessions_def write_body_def removeItem_def setItem_def console_warn_def
           split: sum.splits option.splits if_splits)

lemma write_slot_frame:
  "slot (writeStoredSessions H n (w\<lparr>ui_messages := ms, ui_input := i\<rparr>))
     = slot (writeStoredSessions H n w)"
  by (auto simp: writeStoredSessions_def write_body_def removeItem_def setItem_def console_warn_def
           split: sum.splits option.splits if_splits)

lemma persist_ui [simp]:
  "ui_messages (persist_user_message H sid m w) = ui_messages w"
  "ui_sessionId (persist_user_message H sid m w) = ui_sessionId w"
  "ui_input (persist_user_message H sid m w) = ui_input w"
  "requests (persist_user_message H sid m w) = requests w"
  by (simp_all add: persist_user_message_def Let_def split: option.splits)

lemma user_message_sel [simp]:
  "cm_id (user_message uuid c) = uuid"
  "cm_role (user_message uuid c) = User"
  "cm_content (user_message uuid c) = c"
  by (simp_all add: user_message_def)

lemma stored_user_message_sel [simp]:
  "sm_id (stored_user_message um at) = cm_id um"
  "sm_role (stored_user_message um at) = User"
  "sm_content (stored_user_message um at) = cm_content um"
  "sm_createdAt (stored_user_message um at) = at"
  by (simp_all add: stored_user_message_def)

lemma callout_sel [simp]:
  "cm_id (callout i r c) = i"
  "cm_role (callout i r c) = r"
  "cm_content (callout i r c) = c"
  by (simp_all add: callout_def)

lemma closure_simps [simp]:
  "userMessage (make_closure uuid w) = user_message uuid (trim (ui_input w))"
  "nextMessages (make_closure uuid w) = ui_messages w @ [user_message uuid (trim (ui_input w))]"
  "loadingMessageId (make_closure uuid w) = uuid @ ''-loading''"
  "closure_messages (make_closure uuid w) = ui_messages w"
  "closure_sessionId (make_closure uuid w) = ui_sessionId w"
  by (simp_all add: make_closure_def Let_def)

lemma sync_ui:
  "ui_messages (submit_sync H (make_closure uuid w) at w)
     = ui_messages w @ [user_message uuid (trim (ui_input w)),
                        loading_message uuid (trim (ui_input w))]"
  "requests (submit_sync H (make_closure uuid w) at w) = requests w"
  "ui_sessionId (submit_sync H (make_closure uuid w) at w) = ui_sessionId w"
  by (simp_all add: submit_sync_def Let_def loading_message_def split: option.splits)

lemma sync_unchanged:
  assumes "current_session w = None \<or>
           (\<exists>existing. current_session w = Some existing \<and>
                        list_ex (\<lambda>m. sm_id m = uuid) (messages existing))"
  shows "ui_storedSessions (submit_sync H (make_closure uuid w) at w) = ui_storedSessions w \<and>
         slot (submit_sync H (make_closure uuid w) at w) = slot w \<and>
         console (submit_sync H (make_closure uuid w) at w) = console w"
  using assms
  by (auto simp: current_session_def submit_sync_def persist_user_message_def Let_def
           split: option.splits if_splits)

lemma sync_session:
  assumes "current_session w = Some existing"
      and "\<not> list_ex (\<lambda>m. sm_id m = uuid) (messages existing)"
  shows "ui_storedSessions (submit_sync H (make_closure uuid w) at w) =
           sortSessionsByUpdated H
             (map (\<lambda>s. if sessionId s = sessionId existing
                        then existing\<lparr>messages := messages existing
                                        @ [stored_user_message (user_message uuid (trim (ui_input w))) at],
                                      updatedAt := at\<rparr>
                        else s) (ui_storedSessions w))"
    and "slot (submit_sync H (make_closure uuid w) at w) =
           slot (writeStoredSessions H (ui_storedSessions (submit_sync H (make_closure uuid w) at w)) w)"
proof -
  from assms(1) obtain sid where sid: "ui_sessionId w = Some sid" "sid \<noteq> []"
      "find (\<lambda>session. sessionId session = sid) (ui_storedSessions w) = Some existing"
    by (auto simp: current_session_def split: option.splits if_splits)
  then have e: "sessionId existing = sid"
    by (auto simp: find_Some_iff)
  with sid assms(2) show "ui_storedSessions (submit_sync H (make_closure uuid w) at w) =
           sortSessionsByUpdated H
             (map (\<lambda>s. if sessionId s = sessionId existing
                        then existing\<lparr>messages := messages existing
                                        @ [stored_user_message (user_message uuid (trim (ui_input w))) at],
                                      updatedAt := at\<rparr>
                        else s) (ui_storedSessions w))"
    by (simp add: submit_sync_def persist_user_message_def Let_def)
  from e sid assms(2) show "slot (submit_sync H (make_closure uuid w) at w) =
           slot (writeStoredSessions H (ui_storedSessions (submit_sync H (make_closure uuid w) at w)) w)"
    by (simp add: submit_sync_def persist_user_message_def Let_def write_slot_frame)
qed


lemma transition_no_agent:
  "transition H c None r now w =
     w\<lparr>ui_messages := ui_messages w @ [missing_agent_message (cm_id (userMessage c))]\<rparr>"
  by (simp add: transition_def missing_agent_message_def)


text \<open>
  C1, the claim as stated fails: with no agent configured and the store holding the
  session of the current conversation, a submission changes that session in the store and
  writes the persisted slot.
\<close>

theorem submit_without_agent_counterexample:
  "current_session demo_world \<noteq> None \<and>
   ui_storedSessions (handleSubmit utc_host ''u1'' ''2024-05-02T09:00:00.000Z'' None FetchRejected
                        ''2024-05-02T09:00:01.000Z'' demo_world)
     \<noteq> ui_storedSessions demo_world \<and>
   slot (handleSubmit utc_host ''u1'' ''2024-05-02T09:00:00.000Z'' None FetchRejected
           ''2024-05-02T09:00:01.000Z'' demo_world)
     \<noteq> slot demo_world"
  by code_simp

text \<open>
  C1, amended. When a non-blank message is submitted while no agent is configured, exactly
  one system-role message is appended to the conversation (the earlier messages stay as
  they are) and no network request is made. The Session Store and the persisted slot are
  unchanged when the store holds no session for the current conversation (or that session
  already has a message of the new id); when it holds one, the store changes only by the
  copy of the user message appended to that session, with \<open>updatedAt\<close> refreshed, the
  store sorted again and written to the slot.
\<close>

theorem submit_without_agent:
  assumes "trim (ui_input w) \<noteq> []"
  shows "prefix (ui_messages w) (ui_messages (handleSubmit H uuid at None r now w)) \<and>
         filter (\<lambda>m. cm_role m = System)
           (drop (length (ui_messages w)) (ui_messages (handleSubmit H uuid at None r now w)))
           = [missing_agent_message uuid] \<and>
         requests (handleSubmit H uuid at None r now w) = requests w \<and>
         (current_session w = None \<or>
          (\<exists>existing. current_session w = Some existing \<and>
                       list_ex (\<lambda>m. sm_id m = uuid) (messages existing)) \<longrightarrow>
            ui_storedSessions (handleSubmit H uuid at None r now w) = ui_storedSessions w \<and>
            slot (handleSubmit H uuid at None r now w) = slot w) \<and>
         (\<forall>existing. current_session w = Some existing \<and>
              \<not> list_ex (\<lambda>m. sm_id m = uuid) (messages existing) \<longrightarrow>
            ui_storedSessions (handleSubmit H uuid at None r now w) =
              sortSessionsByUpdated H
                (map (\<lambda>s. if sessionId s = sessionId existing
                           then existing\<lparr>messages := messages existing
                                  @ [stored_user_message (user_message uuid (trim (ui_input w))) at],
                                  updatedAt := at\<rparr>
                           else s) (ui_storedSessions w)) \<and>
            slot (handleSubmit H uuid at None r now w) =
              slot (writeStoredSessions H
                      (ui_storedSessions (handleSubmit H uuid at None r now w)) w))"
proof -
  let ?c = "make_closure uuid w"
  let ?w1 = "submit_sync H ?c at w"
  have h: "handleSubmit H uuid at None r now w
             = ?w1\<lparr>ui_messages := ui_messages ?w1 @ [missing_agent_message uuid]\<rparr>"
    using assms by (simp add: handleSubmit_def Let_def transition_no_agent)
  have unchanged: "ui_storedSessions ?w1 = ui_storedSessions w \<and> slot ?w1 = slot w"
    if "current_session w = None \<or>
          (\<exists>existing. current_session w = Some existing \<and>
                       list_ex (\<lambda>m. sm_id m = uuid) (messages existing))"
    using sync_unchanged [OF that] by simp
  show ?thesis
    unfolding h
    using unchanged sync_session [of w _ uuid H at]
    by (simp add: sync_ui missing_agent_message_def loading_message_def)
qed

theorem submit_without_agent_witness:
  "trim (ui_input demo_world) \<noteq> [] \<and>
   requests (handleSubmit utc_host ''u1'' ''2024-05-02T09:00:00.000Z'' None FetchRejected
               ''2024-05-02T09:00:01.000Z'' demo_world) = requests demo_world \<and>
   filter (\<lambda>m. cm_role m = System)
     (drop (length (ui_messages demo_world))
        (ui_messages (handleSubmit utc_host ''u1'' ''2024-05-02T09:00:00.000Z'' None FetchRejected
                        ''2024-05-02T09:00:01.000Z'' demo_world)))
     = [missing_agent_message ''u1'']"
proof -
  have t: "trim (ui_input demo_world) \<noteq> []" by code_simp
  from submit_without_agent [OF t, of utc_host "''u1''" "''2024-05-02T09:00:00.000Z''"
      FetchRejected "''2024-05-02T09:00:01.000Z''"] t
  show ?thesis by blast
qed



text \<open>
  C2, on the code. The stored session \<open>s1\<close> is continued: the user message \<open>u1\<close> is
  copied into it at submission, and the merge of the agent's successful answer appends
  \<open>u1\<close> once more, so the session holds two messages of the same id.
\<close>

theorem merge_stores_user_message_twice:
  "map sm_id (concat (map messages (ui_storedSessions
     (handleSubmit utc_host ''u1'' ''2024-05-02T09:00:00.000Z'' (Some ''http://agent/run'')
        (Response 200 (WellTyped demo_payload)) ''2024-05-02T09:00:01.000Z'' demo_world))))
     = [''u1'', ''u1'', ''u1-assistant-0''] \<and>
   map sessionId (ui_storedSessions
     (handleSubmit utc_host ''u1'' ''2024-05-02T09:00:00.000Z'' (Some ''http://agent/run'')
        (Response 200 (WellTyped demo_payload)) ''2024-05-02T09:00:01.000Z'' demo_world))
     = [''s1'']"
  by code_simp

end
